theory Spec2Isabelle
  imports Main
begin

section \<open>Data model\<close>

text \<open>
  The \<open>silence add\<close> command of atm (\<open>cli/silence_add.go\<close>), with the helpers it calls
  from \<open>cli/root.go\<close> and the matcher conversion \<open>TypeMatcher\<close>.

  Instants are integers (nanoseconds on the time line), durations are integers
  (nanoseconds, as \<open>model.Duration\<close> and \<open>time.Duration\<close> are): \<open>t.Add(d)\<close> is \<open>t + d\<close> and
  \<open>s.After(e)\<close> is \<open>e < s\<close>. Error values of the libraries are their messages.
\<close>

datatype MatchType = MatchEqual | MatchNotEqual | MatchRegexp | MatchNotRegexp

record labels_Matcher =
  Type :: MatchType
  Name :: string
  Value :: string

record models_Matcher =
  Name' :: string
  Value' :: string
  IsEqual :: bool
  IsRegex :: bool

record silenceAddCmd =
  author :: string
  requireComment :: bool
  duration :: string
  maxDuration :: string
  start :: string
  end' :: string
  comment :: string
  matchers :: "string list"
  tenant :: string
  tenantFile :: string
  tenantHTTPHeader :: string

record PostableSilence =
  Matchers :: "models_Matcher list"
  StartsAt :: int
  EndsAt :: int
  CreatedBy :: string
  Comment :: string

record Header =
  Values :: "string list"
  Secrets :: "string list"
  Files :: "string list"

record HTTPClientConfig =
  HTTPHeaders :: "(string \<rightharpoonup> Header) option"

text \<open>
  Every way \<open>add\<close> ends without success. The constructor names the place of the source
  that produces the error: a \<open>return\<close> of an error value, or \<open>kingpin.Fatalf\<close>, which
  prints the message and terminates the process (\<open>ConflictingTenantConfigError\<close>,
  \<open>HTTPConfigFileError\<close>, \<open>BasicAuthConflictError\<close>, \<open>HTTPClientError\<close>).
\<close>

datatype error =
    MatcherSyntaxError string
  | NoMatchersError
  | TimeParseError string
  | InvalidDurationError string
  | DurationExceedsMaxError string string
  | InvalidWindowError
  | CommentRequiredError
  | ConflictingTenantConfigError
  | HTTPConfigFileError string
  | BasicAuthConflictError
  | HTTPClientError string
  | TenantFileReadError string string
  | SubmissionError "string option" string

text \<open>The lines \<open>add\<close> prints on standard output.\<close>

datatype report =
    SilenceAddedFor string string
  | UnableToAddFor string string
  | SilenceAdded string

text \<open>What \<open>add\<close> does to the outside world, in order: a call of
  \<open>PostSilences\<close> on a client built from a configuration, or a printed line.\<close>

datatype event =
    Post HTTPClientConfig PostableSilence
  | Print report

text \<open>
  The libraries and the outside world \<open>add\<close> calls into, as parameters:
  \<^item> \<open>Matcher s\<close> is \<open>compat.Matcher(s, "cli")\<close>: an error message or a matcher;
  \<^item> \<open>Quote\<close> is \<open>strconv.Quote\<close>;
  \<^item> \<open>Parse s\<close> is \<open>time.Parse(time.RFC3339, s)\<close>; \<open>Now\<close> is \<open>time.Now()\<close>;
  \<^item> \<open>ParseDuration s\<close> is \<open>model.ParseDuration(s)\<close>: Go returns a value and an
    error together, and the caller may read the value whatever the error is;
  \<^item> \<open>amURLUser\<close> is \<open>alertmanagerURL.User != nil\<close>, \<open>httpConfigFile\<close> the global of
    that name, \<open>LoadHTTPConfigFile\<close> and \<open>NewClientFromConfig\<close> the functions of
    \<open>promconfig\<close>;
  \<^item> \<open>Open f\<close> is opening \<open>f\<close> and scanning it line by line: an error message or the
    lines;
  \<^item> \<open>PostSilences cfg ps w\<close> is the request made by a client built from \<open>cfg\<close>, in the
    state \<open>w\<close> of the outside world: an error message or the identifier of the new
    silence, and the next state.
\<close>

record 'w env =
  Matcher :: "string \<Rightarrow> string + labels_Matcher"
  Quote :: "string \<Rightarrow> string"
  Parse :: "string \<Rightarrow> string + int"
  Now :: int
  ParseDuration :: "string \<Rightarrow> int \<times> string option"
  amURLUser :: bool
  httpConfigFile :: string
  LoadHTTPConfigFile :: "string \<Rightarrow> string + HTTPClientConfig"
  NewClientFromConfig :: "HTTPClientConfig \<Rightarrow> string option"
  Open :: "string \<Rightarrow> string + string list"
  PostSilences :: "HTTPClientConfig \<Rightarrow> PostableSilence \<Rightarrow> 'w \<Rightarrow> (string + string) \<times> 'w"

section \<open>Matcher conversion\<close>

definition TypeMatcher :: "labels_Matcher \<Rightarrow> models_Matcher" where
  "TypeMatcher matcher =
     \<lparr> Name' = Name matcher,
       Value' = Value matcher,
       IsEqual = (Type matcher = MatchEqual \<or> Type matcher = MatchRegexp),
       IsRegex = (Type matcher = MatchRegexp \<or> Type matcher = MatchNotRegexp) \<rparr>"

definition TypeMatchers :: "labels_Matcher list \<Rightarrow> models_Matcher list" where
  "TypeMatchers ms = map TypeMatcher ms"

text \<open>Modelled from the spec: the operator each \<open>labels.MatchType\<close> is written with
  (the table of the alertmanager \<open>labels\<close> package, which is not among the sources):
  \<open>=\<close>, \<open>!=\<close>, \<open>=~\<close> and \<open>!~\<close>.\<close>

fun MatchType_String :: "MatchType \<Rightarrow> string" where
  "MatchType_String MatchEqual = ''=''"
| "MatchType_String MatchNotEqual = ''!=''"
| "MatchType_String MatchRegexp = ''=~''"
| "MatchType_String MatchNotRegexp = ''!~''"

section \<open>The command\<close>

subsection \<open>Flags\<close>

text \<open>A string flag of kingpin bound with \<open>StringVar\<close>: the value given on the command
  line, or the default (the empty string when \<open>Default\<close> is not called).\<close>

definition StringVar :: "string \<Rightarrow> string option \<Rightarrow> string" where
  "StringVar dflt given = (case given of None \<Rightarrow> dflt | Some v \<Rightarrow> v)"

subsection \<open>Matchers (lines 105 to 125)\<close>

definition rewriteFirst :: "'w env \<Rightarrow> string list \<Rightarrow> string list" where
  "rewriteFirst env ms =
     (if length ms > 0 then
        (case Matcher env (ms ! 0) of
           Inl err \<Rightarrow> ms[0 := ''alertname='' @ Quote env (ms ! 0)]
         | Inr m \<Rightarrow> ms)
      else ms)"

fun parseLoop :: "'w env \<Rightarrow> string list \<Rightarrow> labels_Matcher list \<Rightarrow> error + labels_Matcher list" where
  "parseLoop env [] acc = Inr acc"
| "parseLoop env (s # ss) acc =
     (case Matcher env s of
        Inl err \<Rightarrow> Inl (MatcherSyntaxError err)
      | Inr m \<Rightarrow> parseLoop env ss (acc @ [m]))"

definition add_matchers :: "'w env \<Rightarrow> silenceAddCmd \<Rightarrow> error + labels_Matcher list" where
  "add_matchers env c =
     (case parseLoop env (rewriteFirst env (matchers c)) [] of
        Inl e \<Rightarrow> Inl e
      | Inr ms \<Rightarrow> if length ms < 1 then Inl NoMatchersError else Inr ms)"

subsection \<open>Window (lines 127 to 162)\<close>

definition add_startsAt :: "'w env \<Rightarrow> silenceAddCmd \<Rightarrow> error + int" where
  "add_startsAt env c =
     (if start c \<noteq> '''' then
        (case Parse env (start c) of
           Inl err \<Rightarrow> Inl (TimeParseError err)
         | Inr t \<Rightarrow> Inr t)
      else Inr (Now env))"

definition add_endsAt :: "'w env \<Rightarrow> silenceAddCmd \<Rightarrow> int \<Rightarrow> error + int" where
  "add_endsAt env c startsAt =
     (if end' c \<noteq> '''' then
        (case Parse env (end' c) of
           Inl err \<Rightarrow> Inl (TimeParseError err)
         | Inr t \<Rightarrow> Inr t)
      else
        (case ParseDuration env (duration c) of
           (d, Some err) \<Rightarrow> Inl (InvalidDurationError err)
         | (d, None) \<Rightarrow>
             if d = 0 then Inl (InvalidDurationError ''silence duration must be greater than 0'')
             else
               (let endsAt = startsAt + d;
                    md = fst (ParseDuration env (maxDuration c))
                in if d > md then Inl (DurationExceedsMaxError (duration c) (maxDuration c))
                   else Inr endsAt)))"

subsection \<open>Validation and payload (lines 105 to 179)\<close>

definition add_silence :: "'w env \<Rightarrow> silenceAddCmd \<Rightarrow> error + PostableSilence" where
  "add_silence env c =
     (case add_matchers env c of
        Inl e \<Rightarrow> Inl e
      | Inr ms \<Rightarrow>
     (case add_startsAt env c of
        Inl e \<Rightarrow> Inl e
      | Inr startsAt \<Rightarrow>
     (case add_endsAt env c startsAt of
        Inl e \<Rightarrow> Inl e
      | Inr endsAt \<Rightarrow>
          if startsAt > endsAt then Inl InvalidWindowError
          else if requireComment c \<and> comment c = '''' then Inl CommentRequiredError
          else Inr \<lparr> Matchers = TypeMatchers ms,
                     StartsAt = startsAt,
                     EndsAt = endsAt,
                     CreatedBy = author c,
                     Comment = comment c \<rparr>)))"

subsection \<open>Clients (root.go)\<close>

definition NewAlertmanagerClientConfig :: "'w env \<Rightarrow> error + HTTPClientConfig" where
  "NewAlertmanagerClientConfig env =
     (if httpConfigFile env \<noteq> '''' then
        (case LoadHTTPConfigFile env (httpConfigFile env) of
           Inl err \<Rightarrow> Inl (HTTPConfigFileError err)
         | Inr cfg \<Rightarrow> Inr cfg)
      else Inr \<lparr> HTTPHeaders = None \<rparr>)"

text \<open>The client is represented by the configuration it was built from.\<close>

definition NewAlertmanagerClient :: "'w env \<Rightarrow> HTTPClientConfig \<Rightarrow> error + HTTPClientConfig" where
  "NewAlertmanagerClient env httpConfig =
     (if amURLUser env \<and> httpConfigFile env \<noteq> '''' then Inl BasicAuthConflictError
      else
        (case NewClientFromConfig env httpConfig of
           Some err \<Rightarrow> Inl (HTTPClientError err)
         | None \<Rightarrow> Inr httpConfig))"

definition setHTTPTenantHeader :: "HTTPClientConfig \<Rightarrow> string \<Rightarrow> string \<Rightarrow> HTTPClientConfig" where
  "setHTTPTenantHeader httpConfig t h =
     (case HTTPHeaders httpConfig of
        None \<Rightarrow>
          httpConfig\<lparr> HTTPHeaders :=
            Some (Map.empty(h \<mapsto> \<lparr> Values = [t], Secrets = [], Files = [] \<rparr>)) \<rparr>
      | Some hs \<Rightarrow>
          httpConfig\<lparr> HTTPHeaders :=
            Some (hs(h \<mapsto> \<lparr> Values = [t], Secrets = [], Files = [] \<rparr>)) \<rparr>)"

subsection \<open>Dispatch (lines 181 to 226)\<close>

text \<open>The result of a run: the error it ends with (\<open>None\<close> is success), the events in
  order, and the state of the outside world afterwards.\<close>

type_synonym 'w run = "error option \<times> event list \<times> 'w"

fun tenantLoop ::
  "'w env \<Rightarrow> silenceAddCmd \<Rightarrow> PostableSilence \<Rightarrow> string list \<Rightarrow> HTTPClientConfig \<Rightarrow> 'w \<Rightarrow> 'w run" where
  "tenantLoop env c ps [] httpConfig w = (None, [], w)"
| "tenantLoop env c ps (t # ts) httpConfig w =
     (let httpConfig' = setHTTPTenantHeader httpConfig t (tenantHTTPHeader c) in
      case NewAlertmanagerClient env httpConfig' of
        Inl e \<Rightarrow> (Some e, [], w)
      | Inr amclient \<Rightarrow>
          (case PostSilences env amclient ps w of
             (Inl err, w') \<Rightarrow>
               (case tenantLoop env c ps ts httpConfig' w' of
                  (r, evs, w'') \<Rightarrow>
                    (r, Post amclient ps # Print (UnableToAddFor t err) # evs, w''))
           | (Inr silenceID, w') \<Rightarrow>
               (case tenantLoop env c ps ts httpConfig' w' of
                  (r, evs, w'') \<Rightarrow>
                    (r, Post amclient ps # Print (SilenceAddedFor t silenceID) # evs, w''))))"

definition add_dispatch :: "'w env \<Rightarrow> silenceAddCmd \<Rightarrow> PostableSilence \<Rightarrow> 'w \<Rightarrow> 'w run" where
  "add_dispatch env c ps w =
     (if tenant c \<noteq> '''' \<and> tenantFile c \<noteq> '''' then (Some ConflictingTenantConfigError, [], w)
      else
        (case NewAlertmanagerClientConfig env of
           Inl e \<Rightarrow> (Some e, [], w)
         | Inr httpConfig \<Rightarrow>
             if tenant c \<noteq> '''' then
               (let httpConfig' = setHTTPTenantHeader httpConfig (tenant c) (tenantHTTPHeader c) in
                case NewAlertmanagerClient env httpConfig' of
                  Inl e \<Rightarrow> (Some e, [], w)
                | Inr amclient \<Rightarrow>
                    (case PostSilences env amclient ps w of
                       (Inl err, w') \<Rightarrow>
                         (Some (SubmissionError (Some (tenant c)) err), [Post amclient ps], w')
                     | (Inr silenceID, w') \<Rightarrow>
                         (None, [Post amclient ps, Print (SilenceAddedFor (tenant c) silenceID)], w')))
             else if tenantFile c \<noteq> '''' then
               (case Open env (tenantFile c) of
                  Inl err \<Rightarrow> (Some (TenantFileReadError (tenantFile c) err), [], w)
                | Inr tenants \<Rightarrow> tenantLoop env c ps tenants httpConfig w)
             else
               (case NewAlertmanagerClient env httpConfig of
                  Inl e \<Rightarrow> (Some e, [], w)
                | Inr amclient \<Rightarrow>
                    (case PostSilences env amclient ps w of
                       (Inl err, w') \<Rightarrow>
                         (Some (SubmissionError None err), [Post amclient ps], w')
                     | (Inr silenceID, w') \<Rightarrow>
                         (None, [Post amclient ps, Print (SilenceAdded silenceID)], w')))))"

subsection \<open>The whole of \<open>add\<close>\<close>

definition add :: "'w env \<Rightarrow> silenceAddCmd \<Rightarrow> 'w \<Rightarrow> 'w run" where
  "add env c w =
     (case add_silence env c of
        Inl e \<Rightarrow> (Some e, [], w)
      | Inr ps \<Rightarrow> add_dispatch env c ps w)"

subsection \<open>Reading a run\<close>

fun posts :: "event list \<Rightarrow> (HTTPClientConfig \<times> PostableSilence) list" where
  "posts [] = []"
| "posts (Post cfg ps # evs) = (cfg, ps) # posts evs"
| "posts (Print out # evs) = posts evs"

fun prints :: "event list \<Rightarrow> report list" where
  "prints [] = []"
| "prints (Post cfg ps # evs) = prints evs"
| "prints (Print out # evs) = out # prints evs"

text \<open>The values of the header \<open>h\<close> in a configuration: the tenant a request made
  with it is for.\<close>

definition tenantOf :: "string \<Rightarrow> HTTPClientConfig \<Rightarrow> string list option" where
  "tenantOf h cfg =
     (case HTTPHeaders cfg of
        None \<Rightarrow> None
      | Some hs \<Rightarrow> map_option Values (hs h))"

abbreviation outcome :: "'w run \<Rightarrow> error option" where
  "outcome r \<equiv> fst r"

abbreviation events :: "'w run \<Rightarrow> event list" where
  "events r \<equiv> fst (snd r)"

text \<open>The answers of the server to a sequence of requests, the state of the outside
  world threaded through them.\<close>

fun responses :: "'w env \<Rightarrow> PostableSilence \<Rightarrow> HTTPClientConfig list \<Rightarrow> 'w \<Rightarrow> (string + string) list" where
  "responses env ps [] w = []"
| "responses env ps (cfg # cfgs) w =
     (case PostSilences env cfg ps w of (r, w') \<Rightarrow> r # responses env ps cfgs w')"

text \<open>The line the tenant loop prints for a tenant and the answer to its request.\<close>

fun tenantReport :: "string \<Rightarrow> string + string \<Rightarrow> report" where
  "tenantReport t (Inl err) = UnableToAddFor t err"
| "tenantReport t (Inr silenceID) = SilenceAddedFor t silenceID"

text \<open>The errors of the duration path, and the errors of validation (everything
  \<open>add\<close> returns before it looks at the tenant flags).\<close>

fun isDurationError :: "error \<Rightarrow> bool" where
  "isDurationError (InvalidDurationError msg) = True"
| "isDurationError (DurationExceedsMaxError d md) = True"
| "isDurationError e = False"

fun isValidationError :: "error \<Rightarrow> bool" where
  "isValidationError (MatcherSyntaxError msg) = True"
| "isValidationError NoMatchersError = True"
| "isValidationError (TimeParseError msg) = True"
| "isValidationError (InvalidDurationError msg) = True"
| "isValidationError (DurationExceedsMaxError d md) = True"
| "isValidationError InvalidWindowError = True"
| "isValidationError CommentRequiredError = True"
| "isValidationError e = False"

section \<open>An environment to run the command in\<close>

text \<open>
  Stand-ins for the libraries, to evaluate \<open>add\<close> on concrete command lines. The matcher
  parser splits at the first operator and takes an enclosing pair of double quotes off
  the value; \<open>exampleQuote\<close> agrees with \<open>strconv.Quote\<close> on printable ASCII; instants and
  durations are read from tables, and, as \<open>model.ParseDuration\<close> does, a string that is
  not a duration gives the value 0 together with the error. The server refuses the
  tenant \<open>a\<close> and accepts every other request; the state of the world counts the requests.
\<close>

fun splitOperator :: "string \<Rightarrow> (string \<times> MatchType \<times> string) option" where
  "splitOperator [] = None"
| "splitOperator (x # xs) =
     (if x = CHR ''='' then
        (case xs of
           y # v \<Rightarrow> if y = CHR ''~'' then Some ([], MatchRegexp, v) else Some ([], MatchEqual, xs)
         | [] \<Rightarrow> Some ([], MatchEqual, xs))
      else if x = CHR ''!'' then
        (case xs of
           y # v \<Rightarrow>
             if y = CHR ''='' then Some ([], MatchNotEqual, v)
             else if y = CHR ''~'' then Some ([], MatchNotRegexp, v)
             else None
         | [] \<Rightarrow> None)
      else
        (case splitOperator xs of
           None \<Rightarrow> None
         | Some (n, t, v) \<Rightarrow> Some (x # n, t, v)))"

definition stripQuotes :: "string \<Rightarrow> string" where
  "stripQuotes v =
     (if 2 \<le> length v \<and> hd v = CHR 0x22 \<and> last v = CHR 0x22 then butlast (tl v) else v)"

definition exampleMatcher :: "string \<Rightarrow> string + labels_Matcher" where
  "exampleMatcher s =
     (case splitOperator s of
        None \<Rightarrow> Inl (''bad matcher format: '' @ s)
      | Some (n, t, v) \<Rightarrow>
          if n = [] then Inl (''bad matcher format: '' @ s)
          else Inr \<lparr> Type = t, Name = n, Value = stripQuotes v \<rparr>)"

definition exampleQuote :: "string \<Rightarrow> string" where
  "exampleQuote s =
     [CHR 0x22]
     @ concat (map (\<lambda>ch. if ch = CHR 0x22 \<or> ch = CHR 0x5C then [CHR 0x5C, ch] else [ch]) s)
     @ [CHR 0x22]"

definition exampleParse :: "string \<Rightarrow> string + int" where
  "exampleParse s =
     (case map_of
        [(''2024-01-01T00:00:00Z'', 1704067200000000000),
         (''2024-01-01T06:00:00Z'', 1704088800000000000),
         (''2024-01-02T00:00:00Z'', 1704153600000000000)] s of
        None \<Rightarrow> Inl (''cannot parse as RFC3339: '' @ s)
      | Some t \<Rightarrow> Inr t)"

definition exampleParseDuration :: "string \<Rightarrow> int \<times> string option" where
  "exampleParseDuration s =
     (case map_of
        [(''0'', 0),
         (''10m'', 600000000000),
         (''1h'', 3600000000000),
         (''12h'', 43200000000000),
         (''13h'', 46800000000000)] s of
        None \<Rightarrow> (0, Some (''not a valid duration string: '' @ s))
      | Some d \<Rightarrow> (d, None))"

definition exampleOpen :: "string \<Rightarrow> string + string list" where
  "exampleOpen f = (if f = ''tenants.conf'' then Inr [''a'', ''b''] else Inl ''no such file'')"

definition examplePost :: "HTTPClientConfig \<Rightarrow> PostableSilence \<Rightarrow> nat \<Rightarrow> (string + string) \<times> nat" where
  "examplePost cfg ps w =
     (case HTTPHeaders cfg of
        None \<Rightarrow> (Inr ''silence'', Suc w)
      | Some hs \<Rightarrow>
          (case hs ''X-Scope-OrgID'' of
             None \<Rightarrow> (Inr ''silence'', Suc w)
           | Some h \<Rightarrow>
               if Values h = [''a''] then (Inl ''refused'', Suc w)
               else (Inr (''silence-'' @ concat (Values h)), Suc w)))"

definition exampleEnv :: "nat env" where
  "exampleEnv =
     \<lparr> Matcher = exampleMatcher,
       Quote = exampleQuote,
       Parse = exampleParse,
       Now = 1704067200000000000,
       ParseDuration = exampleParseDuration,
       amURLUser = False,
       httpConfigFile = [],
       LoadHTTPConfigFile = (\<lambda>f. Inl ''no such file''),
       NewClientFromConfig = (\<lambda>cfg. None),
       Open = exampleOpen,
       PostSilences = examplePost \<rparr>"

text \<open>The command line \<open>atm silence add alertname=foo node=bar --comment x\<close> with the
  defaults of the flags.\<close>

definition exampleCmd :: silenceAddCmd where
  "exampleCmd =
     \<lparr> author = ''me'',
       requireComment = True,
       duration = ''1h'',
       maxDuration = ''12h'',
       start = [],
       end' = [],
       comment = ''x'',
       matchers = [''alertname=foo'', ''node=bar''],
       tenant = [],
       tenantFile = [],
       tenantHTTPHeader = ''X-Scope-OrgID'' \<rparr>"

section \<open>Properties of the stages\<close>




lemma parseLoop_error: "parseLoop env ss acc = Inl e \<Longrightarrow> isValidationError e \<and> e \<noteq> NoMatchersError"
  by (induction ss arbitrary: acc) (auto split: sum.splits)

lemma add_matchers_error: "add_matchers env c = Inl e \<Longrightarrow> isValidationError e"
  by (auto simp: add_matchers_def split: sum.splits if_splits dest: parseLoop_error)

lemma add_startsAt_error: "add_startsAt env c = Inl e \<Longrightarrow> isValidationError e"
  by (auto simp: add_startsAt_def split: sum.splits if_splits)

lemma add_endsAt_error: "add_endsAt env c s = Inl e \<Longrightarrow> isValidationError e"
  by (auto simp: add_endsAt_def Let_def split: sum.splits if_splits prod.splits option.splits)

lemma add_silence_error: "add_silence env c = Inl e \<Longrightarrow> isValidationError e"
  by (auto simp: add_silence_def split: sum.splits if_splits
      dest: add_matchers_error add_startsAt_error add_endsAt_error)

lemma add_silence_Inr:
  "add_silence env c = Inr ps \<Longrightarrow>
     add_startsAt env c = Inr (StartsAt ps) \<and> add_endsAt env c (StartsAt ps) = Inr (EndsAt ps)
     \<and> StartsAt ps \<le> EndsAt ps"
  by (auto simp: add_silence_def split: sum.splits if_splits)

lemma add_silence_stages:
  "add_matchers env c = Inr ms \<Longrightarrow> add_startsAt env c = Inr s \<Longrightarrow>
   add_silence env c =
     (case add_endsAt env c s of
        Inl e \<Rightarrow> Inl e
      | Inr e \<Rightarrow>
          if s > e then Inl InvalidWindowError
          else if requireComment c \<and> comment c = [] then Inl CommentRequiredError
          else Inr \<lparr> Matchers = TypeMatchers ms, StartsAt = s, EndsAt = e,
                     CreatedBy = author c, Comment = comment c \<rparr>)"
  by (simp add: add_silence_def)

lemma add_fail: "add_silence env c = Inl e \<Longrightarrow> add env c w = (Some e, [], w)"
  by (simp add: add_def)

lemma add_ok: "add_silence env c = Inr ps \<Longrightarrow> add env c w = add_dispatch env c ps w"
  by (simp add: add_def)

lemma tenantLoop_posts_payload:
  "list_all (\<lambda>(cfg, p). p = ps) (posts (events (tenantLoop env c ps ts cfg w)))"
  by (induction ts arbitrary: cfg w) (auto simp: Let_def case_prod_beta split: sum.splits)

lemma tenantLoop_outcome:
  "outcome (tenantLoop env c ps ts cfg w) = Some e \<Longrightarrow> \<not> isValidationError e"
proof (induction ts arbitrary: cfg w)
  case Nil
  then show ?case by simp
next
  case (Cons t ts)
  show ?case
  proof (cases "NewAlertmanagerClient env (setHTTPTenantHeader cfg t (tenantHTTPHeader c))")
    case (Inl e')
    with Cons.prems have "e = e'" by (simp add: Let_def)
    with Inl show ?thesis
      by (auto simp: NewAlertmanagerClient_def split: if_splits option.splits)
  next
    case (Inr amclient)
    with Cons.prems obtain cfg' w' where "outcome (tenantLoop env c ps ts cfg' w') = Some e"
      by (auto simp: Let_def case_prod_beta split: sum.splits)
    then show ?thesis by (rule Cons.IH)
  qed
qed

lemma add_dispatch_posts_payload:
  "list_all (\<lambda>(cfg, p). p = ps) (posts (events (add_dispatch env c ps w)))"
  by (auto simp: add_dispatch_def Let_def case_prod_beta tenantLoop_posts_payload split: sum.splits)

lemma add_dispatch_outcome:
  "outcome (add_dispatch env c ps w) = Some e \<Longrightarrow> \<not> isValidationError e"
  by (auto simp: add_dispatch_def Let_def case_prod_beta NewAlertmanagerClient_def
        NewAlertmanagerClientConfig_def
      split: sum.splits if_splits option.splits dest: tenantLoop_outcome)

lemma isDurationError_validation: "isDurationError e \<Longrightarrow> isValidationError e"
  by (cases e) auto

lemma setHTTPTenantHeader_twice:
  "setHTTPTenantHeader (setHTTPTenantHeader cfg t h) t' h = setHTTPTenantHeader cfg t' h"
  by (simp add: setHTTPTenantHeader_def split: option.splits)

lemma tenantOf_setHTTPTenantHeader: "tenantOf h (setHTTPTenantHeader cfg t h) = Some [t]"
  by (simp add: tenantOf_def setHTTPTenantHeader_def split: option.splits)

lemma NewAlertmanagerClient_Inr: "NewAlertmanagerClient env cfg = Inr x \<Longrightarrow> x = cfg"
  by (auto simp: NewAlertmanagerClient_def split: if_splits option.splits)

lemma tenantLoop_all:
  assumes "\<forall>t\<in>set ts. \<exists>x. NewAlertmanagerClient env (setHTTPTenantHeader cfg t (tenantHTTPHeader c)) = Inr x"
  shows "outcome (tenantLoop env c ps ts cfg w) = None
       \<and> posts (events (tenantLoop env c ps ts cfg w))
           = map (\<lambda>t. (setHTTPTenantHeader cfg t (tenantHTTPHeader c), ps)) ts
       \<and> prints (events (tenantLoop env c ps ts cfg w))
           = map2 tenantReport ts
               (responses env ps (map (\<lambda>t. setHTTPTenantHeader cfg t (tenantHTTPHeader c)) ts) w)"
  using assms
proof (induction ts arbitrary: cfg w)
  case Nil
  then show ?case by simp
next
  case (Cons t ts)
  let ?h = "tenantHTTPHeader c"
  let ?cfg = "setHTTPTenantHeader cfg t ?h"
  from Cons.prems obtain x where "NewAlertmanagerClient env ?cfg = Inr x" by auto
  then have client: "NewAlertmanagerClient env ?cfg = Inr ?cfg"
    using NewAlertmanagerClient_Inr by blast
  have "\<forall>t'\<in>set ts. \<exists>x. NewAlertmanagerClient env (setHTTPTenantHeader ?cfg t' ?h) = Inr x"
    using Cons.prems by (simp add: setHTTPTenantHeader_twice)
  from Cons.IH [OF this] have IH:
    "\<And>w'. outcome (tenantLoop env c ps ts ?cfg w') = None
       \<and> posts (events (tenantLoop env c ps ts ?cfg w'))
           = map (\<lambda>t. (setHTTPTenantHeader cfg t ?h, ps)) ts
       \<and> prints (events (tenantLoop env c ps ts ?cfg w'))
           = map2 tenantReport ts
               (responses env ps (map (\<lambda>t. setHTTPTenantHeader cfg t ?h) ts) w')"
    by (simp add: setHTTPTenantHeader_twice)
  obtain r w' where post: "PostSilences env ?cfg ps w = (r, w')" by (cases "PostSilences env ?cfg ps w")
  show ?case
    using client post IH [of w']
    by (cases r) (simp_all add: Let_def case_prod_beta)
qed

lemmas example_defs =
  exampleEnv_def exampleCmd_def exampleMatcher_def exampleQuote_def exampleParse_def
  exampleParseDuration_def exampleOpen_def examplePost_def stripQuotes_def

lemmas add_defs =
  add_def add_silence_def add_matchers_def rewriteFirst_def add_startsAt_def add_endsAt_def
  add_dispatch_def NewAlertmanagerClientConfig_def NewAlertmanagerClient_def
  setHTTPTenantHeader_def TypeMatchers_def TypeMatcher_def

section \<open>Matcher conversion: the operators\<close>

text \<open>
  Claim C5. For every matcher, the operator it is written with decides the pair
  \<open>(IsEqual, IsRegex)\<close> of the converted matcher, and the other way round: \<open>IsEqual\<close> holds
  exactly for \<open>=\<close> and \<open>=~\<close>, \<open>IsRegex\<close> exactly for \<open>=~\<close> and \<open>!~\<close>; two matchers have the
  same pair exactly when they have the same operator; the four operators give the four
  pairs.
\<close>

theorem TypeMatcher_operator:
  "IsEqual (TypeMatcher m) = (MatchType_String (Type m) = ''='' \<or> MatchType_String (Type m) = ''=~'')
   \<and> IsRegex (TypeMatcher m) = (MatchType_String (Type m) = ''=~'' \<or> MatchType_String (Type m) = ''!~'')
   \<and> ((IsEqual (TypeMatcher m), IsRegex (TypeMatcher m)) = (IsEqual (TypeMatcher m'), IsRegex (TypeMatcher m')))
       = (MatchType_String (Type m) = MatchType_String (Type m'))
   \<and> (MatchType_String (Type m) = MatchType_String (Type m')) = (Type m = Type m')
   \<and> map (\<lambda>t. (MatchType_String t, IsEqual (TypeMatcher (m\<lparr>Type := t\<rparr>)), IsRegex (TypeMatcher (m\<lparr>Type := t\<rparr>))))
        [MatchEqual, MatchNotEqual, MatchRegexp, MatchNotRegexp]
       = [(''='', True, False), (''!='', False, False), (''=~'', True, True), (''!~'', False, True)]"
  by (cases "Type m"; cases "Type m'") (simp_all add: TypeMatcher_def)

section \<open>The limit on the duration\<close>

text \<open>
  Claim C1 says that a \<open>maxDuration\<close> that does not parse means no limit. With
  \<open>--max-duration bogus\<close> the parser returns the value 0 with its error, \<open>add\<close> drops
  the error and compares the duration with 0: the default duration of one hour, which
  parses and is not zero, is rejected with \<open>DurationExceedsMaxError\<close>.
\<close>

theorem maxDuration_unparsable_counterexample:
  "ParseDuration exampleEnv ''1h'' = (3600000000000, None)
   \<and> ParseDuration exampleEnv ''bogus'' = (0, Some ''not a valid duration string: bogus'')
   \<and> add exampleEnv (exampleCmd\<lparr>maxDuration := ''bogus''\<rparr>) 0
       = (Some (DurationExceedsMaxError ''1h'' ''bogus''), [], 0)"
  by (simp add: example_defs add_defs)

text \<open>
  Claim C1, as the code has it. In the duration path (no explicit end, matchers parsed,
  start resolved, the duration parsed and not zero), the error of parsing \<open>maxDuration\<close>
  is dropped and the value \<open>md\<close> returned with it is the limit: \<open>add\<close> fails with
  \<open>DurationExceedsMaxError\<close>, naming both strings, exactly when the duration is greater than
  \<open>md\<close>. When both strings parse, \<open>md\<close> is the parsed maximum; when \<open>maxDuration\<close> does not
  parse, \<open>md\<close> is what the parser returned beside the error (0 for \<open>model.ParseDuration\<close>,
  so that every positive duration is then rejected).
\<close>

theorem maxDuration_check:
  assumes "end' c = []"
    and "add_matchers env c = Inr ms"
    and "add_startsAt env c = Inr startsAt"
    and "ParseDuration env (duration c) = (d, None)"
    and "d \<noteq> 0"
    and "ParseDuration env (maxDuration c) = (md, merr)"
  shows "(md < d) = (add env c w = (Some (DurationExceedsMaxError (duration c) (maxDuration c)), [], w))
       \<and> (md < d) = (\<exists>x y. outcome (add env c w) = Some (DurationExceedsMaxError x y))"
proof (cases "md < d")
  case True
  with assms have "add_endsAt env c startsAt = Inl (DurationExceedsMaxError (duration c) (maxDuration c))"
    by (simp add: add_endsAt_def)
  with assms have "add_silence env c = Inl (DurationExceedsMaxError (duration c) (maxDuration c))"
    by (simp add: add_silence_stages)
  then have "add env c w = (Some (DurationExceedsMaxError (duration c) (maxDuration c)), [], w)"
    by (rule add_fail)
  with True show ?thesis by simp
next
  case False
  with assms have e: "add_endsAt env c startsAt = Inr (startsAt + d)"
    by (simp add: add_endsAt_def)
  have "\<not> (\<exists>x y. outcome (add env c w) = Some (DurationExceedsMaxError x y))"
  proof
    assume "\<exists>x y. outcome (add env c w) = Some (DurationExceedsMaxError x y)"
    then obtain x y where o: "outcome (add env c w) = Some (DurationExceedsMaxError x y)" by blast
    show False
    proof (cases "add_silence env c")
      case (Inl e')
      with o have "e' = DurationExceedsMaxError x y" by (simp add: add_def)
      with Inl assms e show False
        by (simp add: add_silence_stages split: if_splits)
    next
      case (Inr ps)
      with o have "outcome (add_dispatch env c ps w) = Some (DurationExceedsMaxError x y)"
        by (simp add: add_def)
      from add_dispatch_outcome [OF this] show False by simp
    qed
  qed
  moreover from this have "add env c w \<noteq> (Some (DurationExceedsMaxError (duration c) (maxDuration c)), [], w)"
    by auto
  ultimately show ?thesis using False by simp
qed

theorem maxDuration_check_witness:
  "add exampleEnv (exampleCmd\<lparr>maxDuration := ''bogus''\<rparr>) 0
     = (Some (DurationExceedsMaxError ''1h'' ''bogus''), [], 0)
   \<and> add exampleEnv (exampleCmd\<lparr>duration := ''13h''\<rparr>) 0
     = (Some (DurationExceedsMaxError ''13h'' ''12h''), [], 0)
   \<and> add exampleEnv (exampleCmd\<lparr>duration := ''12h''\<rparr>) 0
     \<noteq> (Some (DurationExceedsMaxError ''12h'' ''12h''), [], 0)"
proof -
  let ?ms = "[\<lparr>Type = MatchEqual, Name = ''alertname'', Value = ''foo''\<rparr>,
              \<lparr>Type = MatchEqual, Name = ''node'', Value = ''bar''\<rparr>]"
  have m: "\<And>d md. add_matchers exampleEnv (exampleCmd\<lparr>duration := d, maxDuration := md\<rparr>) = Inr ?ms"
    by (simp add: example_defs add_defs)
  have s: "\<And>d md. add_startsAt exampleEnv (exampleCmd\<lparr>duration := d, maxDuration := md\<rparr>)
             = Inr 1704067200000000000"
    by (simp add: example_defs add_defs)
  have 1: "add exampleEnv (exampleCmd\<lparr>duration := ''1h'', maxDuration := ''bogus''\<rparr>) 0
     = (Some (DurationExceedsMaxError ''1h'' ''bogus''), [], 0)"
    using maxDuration_check [of "exampleCmd\<lparr>duration := ''1h'', maxDuration := ''bogus''\<rparr>" exampleEnv
        ?ms 1704067200000000000 3600000000000 0 "Some ''not a valid duration string: bogus''" 0] m s
    by (simp add: example_defs)
  have 2: "add exampleEnv (exampleCmd\<lparr>duration := ''13h'', maxDuration := ''12h''\<rparr>) 0
     = (Some (DurationExceedsMaxError ''13h'' ''12h''), [], 0)"
    using maxDuration_check [of "exampleCmd\<lparr>duration := ''13h'', maxDuration := ''12h''\<rparr>" exampleEnv
        ?ms 1704067200000000000 46800000000000 43200000000000 None 0] m s
    by (simp add: example_defs)
  have 3: "add exampleEnv (exampleCmd\<lparr>duration := ''12h'', maxDuration := ''12h''\<rparr>) 0
     \<noteq> (Some (DurationExceedsMaxError ''12h'' ''12h''), [], 0)"
    using maxDuration_check [of "exampleCmd\<lparr>duration := ''12h'', maxDuration := ''12h''\<rparr>" exampleEnv
        ?ms 1704067200000000000 43200000000000 43200000000000 None 0] m s
    by (simp add: example_defs)
  have eq: "exampleCmd\<lparr>duration := ''1h'', maxDuration := ''bogus''\<rparr> = exampleCmd\<lparr>maxDuration := ''bogus''\<rparr>"
    "exampleCmd\<lparr>duration := ''13h'', maxDuration := ''12h''\<rparr> = exampleCmd\<lparr>duration := ''13h''\<rparr>"
    "exampleCmd\<lparr>duration := ''12h'', maxDuration := ''12h''\<rparr> = exampleCmd\<lparr>duration := ''12h''\<rparr>"
    by (simp_all add: exampleCmd_def)
  from 1 2 3 show ?thesis by (simp only: eq) simp
qed

section \<open>The first matcher\<close>





section \<open>The tenant file\<close>

text \<open>
  Claim C3. In file-tenant mode (the payload built, no tenant flag, a tenant file that
  can be read, the HTTP client built for each tenant), \<open>add\<close> makes one request for every
  tenant of the file, in the order of the file, each with the header set to that tenant
  and with the same payload, whatever the server answers to the earlier ones; it prints
  one line for every tenant, the failure when the request failed and the identifier of
  the silence when it succeeded; and it returns without error. A failed request is an
  error returned by \<open>PostSilences\<close>; \<open>NewAlertmanagerClient\<close> ends the process when the
  client cannot be built, which the hypothesis excludes.
\<close>

theorem tenant_file_all_attempted:
  assumes "add_silence env c = Inr ps"
    and "tenant c = []"
    and "tenantFile c \<noteq> []"
    and "NewAlertmanagerClientConfig env = Inr httpConfig"
    and "Open env (tenantFile c) = Inr tenants"
    and "\<forall>t\<in>set tenants.
           \<exists>amclient. NewAlertmanagerClient env (setHTTPTenantHeader httpConfig t (tenantHTTPHeader c)) = Inr amclient"
  shows "map (\<lambda>(cfg, p). tenantOf (tenantHTTPHeader c) cfg) (posts (events (add env c w)))
           = map (\<lambda>t. Some [t]) tenants
       \<and> posts (events (add env c w))
           = map (\<lambda>t. (setHTTPTenantHeader httpConfig t (tenantHTTPHeader c), ps)) tenants
       \<and> prints (events (add env c w))
           = map2 tenantReport tenants
               (responses env ps
                  (map (\<lambda>t. setHTTPTenantHeader httpConfig t (tenantHTTPHeader c)) tenants) w)
       \<and> outcome (add env c w) = None"
proof -
  from assms(1-5) have run: "add env c w = tenantLoop env c ps tenants httpConfig w"
    by (simp add: add_def add_dispatch_def)
  note all = tenantLoop_all [OF assms(6), of ps w]
  from all have p: "posts (events (add env c w))
           = map (\<lambda>t. (setHTTPTenantHeader httpConfig t (tenantHTTPHeader c), ps)) tenants"
    by (simp add: run)
  have "map (\<lambda>(cfg, p). tenantOf (tenantHTTPHeader c) cfg) (posts (events (add env c w)))
           = map (\<lambda>t. Some [t]) tenants"
    by (simp add: p tenantOf_setHTTPTenantHeader comp_def)
  with all p show ?thesis by (simp add: run)
qed

theorem tenant_file_all_attempted_witness:
  "map (\<lambda>(cfg, p). tenantOf ''X-Scope-OrgID'' cfg)
       (posts (events (add exampleEnv (exampleCmd\<lparr>tenantFile := ''tenants.conf''\<rparr>) 0)))
     = [Some [''a''], Some [''b'']]
   \<and> prints (events (add exampleEnv (exampleCmd\<lparr>tenantFile := ''tenants.conf''\<rparr>) 0))
     = [UnableToAddFor ''a'' ''refused'', SilenceAddedFor ''b'' ''silence-b'']
   \<and> outcome (add exampleEnv (exampleCmd\<lparr>tenantFile := ''tenants.conf''\<rparr>) 0) = None"
proof -
  let ?c = "exampleCmd\<lparr>tenantFile := ''tenants.conf''\<rparr>"
  let ?ps = "\<lparr> Matchers = [\<lparr>Name' = ''alertname'', Value' = ''foo'', IsEqual = True, IsRegex = False\<rparr>,
                           \<lparr>Name' = ''node'', Value' = ''bar'', IsEqual = True, IsRegex = False\<rparr>],
                StartsAt = 1704067200000000000, EndsAt = 1704070800000000000,
                CreatedBy = ''me'', Comment = ''x'' \<rparr>"
  have 1: "add_silence exampleEnv ?c = Inr ?ps" by (simp add: example_defs add_defs)
  have 2: "tenant ?c = []" and 3: "tenantFile ?c \<noteq> []" and h: "tenantHTTPHeader ?c = ''X-Scope-OrgID''"
    by (simp_all add: exampleCmd_def)
  have 4: "NewAlertmanagerClientConfig exampleEnv = Inr \<lparr>HTTPHeaders = None\<rparr>"
    by (simp add: exampleEnv_def NewAlertmanagerClientConfig_def)
  have 5: "Open exampleEnv (tenantFile ?c) = Inr [''a'', ''b'']"
    by (simp add: example_defs)
  have 6: "\<forall>t\<in>set [''a'', ''b''].
           \<exists>amclient. NewAlertmanagerClient exampleEnv
              (setHTTPTenantHeader \<lparr>HTTPHeaders = None\<rparr> t (tenantHTTPHeader ?c)) = Inr amclient"
    by (simp add: exampleEnv_def NewAlertmanagerClient_def)
  have r: "responses exampleEnv ?ps
              (map (\<lambda>t. setHTTPTenantHeader \<lparr>HTTPHeaders = None\<rparr> t ''X-Scope-OrgID'') [''a'', ''b'']) 0
            = [Inl ''refused'', Inr ''silence-b'']"
    by (simp add: exampleEnv_def examplePost_def setHTTPTenantHeader_def)
  note T = tenant_file_all_attempted [OF 1 2 3 4 5 6, of 0, unfolded h r]
  from T have "map (\<lambda>(cfg, p). tenantOf ''X-Scope-OrgID'' cfg) (posts (events (add exampleEnv ?c 0)))
                 = map (\<lambda>t. Some [t]) [''a'', ''b'']"
    and "prints (events (add exampleEnv ?c 0))
           = map2 tenantReport [''a'', ''b''] [Inl ''refused'', Inr ''silence-b'']"
    and "outcome (add exampleEnv ?c 0) = None"
    by blast+
  then show ?thesis by simp
qed

section \<open>Both tenant flags\<close>

text \<open>
  Claim C4 says that every invocation with both tenant flags fails with
  \<open>ConflictingTenantConfigError\<close>. The command line \<open>atm silence add alertname=foo
  node=bar --tenant a --tenant.file tenants.conf\<close> without a comment gives both flags,
  and fails with the error of the missing comment, not with the conflict of the flags.
\<close>

theorem both_tenant_flags_counterexample:
  "tenant (exampleCmd\<lparr>tenant := ''a'', tenantFile := ''tenants.conf'', comment := []\<rparr>) \<noteq> []
   \<and> tenantFile (exampleCmd\<lparr>tenant := ''a'', tenantFile := ''tenants.conf'', comment := []\<rparr>) \<noteq> []
   \<and> add exampleEnv (exampleCmd\<lparr>tenant := ''a'', tenantFile := ''tenants.conf'', comment := []\<rparr>) 0
       = (Some CommentRequiredError, [], 0)"
  by (simp add: example_defs add_defs)

text \<open>
  Claim C4, as the code has it. For every invocation that gives both a tenant and a
  tenant file, nothing is sent and the command fails: with the error of the validation
  (matchers, window, comment) when that fails, and with \<open>ConflictingTenantConfigError\<close>
  otherwise.
\<close>

theorem both_tenant_flags:
  assumes "tenant c \<noteq> []" and "tenantFile c \<noteq> []"
  shows "add env c w =
           (Some (case add_silence env c of Inl e \<Rightarrow> e | Inr ps \<Rightarrow> ConflictingTenantConfigError), [], w)
       \<and> posts (events (add env c w)) = []"
  using assms by (simp add: add_def add_dispatch_def split: sum.splits)

theorem both_tenant_flags_witness:
  "add exampleEnv (exampleCmd\<lparr>tenant := ''a'', tenantFile := ''tenants.conf''\<rparr>) 0
     = (Some ConflictingTenantConfigError, [], 0)
   \<and> posts (events (add exampleEnv (exampleCmd\<lparr>tenant := ''a'', tenantFile := ''tenants.conf''\<rparr>) 0)) = []"
proof -
  let ?c = "exampleCmd\<lparr>tenant := ''a'', tenantFile := ''tenants.conf''\<rparr>"
  have 1: "tenant ?c \<noteq> []" and 2: "tenantFile ?c \<noteq> []" by (simp_all add: exampleCmd_def)
  have "\<exists>ps. add_silence exampleEnv ?c = Inr ps" by (simp add: example_defs add_defs)
  with both_tenant_flags [OF 1 2, of exampleEnv 0] show ?thesis by auto
qed

text \<open>
  Claim C10. With both tenant flags given, the command ends with
  \<open>ConflictingTenantConfigError\<close> exactly when the matchers parse, the start and the end of
  the window resolve, the window is in order and the comment is there if required; when
  any of these fails, the command ends with that error, which is an error of validation
  and not the conflict.
\<close>

theorem validation_before_tenant_conflict:
  assumes "tenant c \<noteq> []" and "tenantFile c \<noteq> []"
  shows "(outcome (add env c w) = Some ConflictingTenantConfigError)
           = (\<exists>ms startsAt endsAt.
                add_matchers env c = Inr ms \<and> add_startsAt env c = Inr startsAt
                \<and> add_endsAt env c startsAt = Inr endsAt \<and> startsAt \<le> endsAt
                \<and> \<not> (requireComment c \<and> comment c = []))
       \<and> (case add_silence env c of
             Inl e \<Rightarrow>
               add env c w = (Some e, [], w) \<and> isValidationError e \<and> e \<noteq> ConflictingTenantConfigError
           | Inr ps \<Rightarrow> add env c w = (Some ConflictingTenantConfigError, [], w))"
proof (cases "add_silence env c")
  case (Inl e)
  then have run: "add env c w = (Some e, [], w)" by (rule add_fail)
  from Inl have v: "isValidationError e" by (rule add_silence_error)
  then have ne: "e \<noteq> ConflictingTenantConfigError" by auto
  have "\<not> (\<exists>ms startsAt endsAt.
                add_matchers env c = Inr ms \<and> add_startsAt env c = Inr startsAt
                \<and> add_endsAt env c startsAt = Inr endsAt \<and> startsAt \<le> endsAt
                \<and> \<not> (requireComment c \<and> comment c = []))"
    using Inl by (auto simp: add_silence_def split: if_splits)
  with Inl run v ne show ?thesis by simp
next
  case (Inr ps)
  with assms have run: "add env c w = (Some ConflictingTenantConfigError, [], w)"
    by (simp add: add_def add_dispatch_def)
  have "\<exists>ms startsAt endsAt.
                add_matchers env c = Inr ms \<and> add_startsAt env c = Inr startsAt
                \<and> add_endsAt env c startsAt = Inr endsAt \<and> startsAt \<le> endsAt
                \<and> \<not> (requireComment c \<and> comment c = [])"
    using Inr by (auto simp: add_silence_def split: sum.splits if_splits)
  with Inr run show ?thesis by simp
qed

theorem validation_before_tenant_conflict_witness:
  "add exampleEnv (exampleCmd\<lparr>tenant := ''a'', tenantFile := ''tenants.conf'', matchers := [''alertname=foo'', ''bar'']\<rparr>) 0
     = (Some (MatcherSyntaxError ''bad matcher format: bar''), [], 0)
   \<and> add exampleEnv (exampleCmd\<lparr>tenant := ''a'', tenantFile := ''tenants.conf'', duration := ''0''\<rparr>) 0
     = (Some (InvalidDurationError ''silence duration must be greater than 0''), [], 0)
   \<and> add exampleEnv (exampleCmd\<lparr>tenant := ''a'', tenantFile := ''tenants.conf'', comment := []\<rparr>) 0
     = (Some CommentRequiredError, [], 0)"
proof -
  let ?c1 = "exampleCmd\<lparr>tenant := ''a'', tenantFile := ''tenants.conf'', matchers := [''alertname=foo'', ''bar'']\<rparr>"
  let ?c2 = "exampleCmd\<lparr>tenant := ''a'', tenantFile := ''tenants.conf'', duration := ''0''\<rparr>"
  let ?c3 = "exampleCmd\<lparr>tenant := ''a'', tenantFile := ''tenants.conf'', comment := []\<rparr>"
  have t: "tenant ?c1 \<noteq> []" "tenantFile ?c1 \<noteq> []" "tenant ?c2 \<noteq> []" "tenantFile ?c2 \<noteq> []"
    "tenant ?c3 \<noteq> []" "tenantFile ?c3 \<noteq> []"
    by (simp_all add: exampleCmd_def)
  have 1: "add_silence exampleEnv ?c1 = Inl (MatcherSyntaxError ''bad matcher format: bar'')"
    by (simp add: example_defs add_defs)
  have 2: "add_silence exampleEnv ?c2 = Inl (InvalidDurationError ''silence duration must be greater than 0'')"
    by (simp add: example_defs add_defs)
  have 3: "add_silence exampleEnv ?c3 = Inl CommentRequiredError"
    by (simp add: example_defs add_defs)
  from validation_before_tenant_conflict [OF t(1) t(2), of exampleEnv 0]
    validation_before_tenant_conflict [OF t(3) t(4), of exampleEnv 0]
    validation_before_tenant_conflict [OF t(5) t(6), of exampleEnv 0]
  show ?thesis by (simp add: 1 2 3)
qed

section \<open>An explicit end\<close>

lemma parseLoop_syntax: "parseLoop env ss acc = Inl e \<Longrightarrow> \<exists>msg. e = MatcherSyntaxError msg"
  by (induction ss arbitrary: acc) (auto split: sum.splits)

lemma tenantLoop_cong:
  "tenantHTTPHeader c = tenantHTTPHeader c' \<Longrightarrow>
   tenantLoop env c ps ts cfg w = tenantLoop env c' ps ts cfg w"
  by (induction ts arbitrary: cfg w) (simp_all add: Let_def split: sum.splits prod.splits)

lemma add_dispatch_cong:
  assumes "tenant c = tenant c'" and "tenantFile c = tenantFile c'"
    and "tenantHTTPHeader c = tenantHTTPHeader c'"
  shows "add_dispatch env c ps w = add_dispatch env c' ps w"
proof -
  have "tenantLoop env c ps ts cfg w = tenantLoop env c' ps ts cfg w" for ts cfg
    using assms(3) by (rule tenantLoop_cong)
  then show ?thesis
    unfolding add_dispatch_def assms by (simp split: sum.splits)
qed

text \<open>
  Claim C6. With an explicit end, the end of the window is the parsed end (or the error
  of parsing it), whatever the start is; every payload sent ends at the parsed end; the
  command never fails with an error of the duration path; and the strings \<open>duration\<close>
  and \<open>maxDuration\<close> have no effect on the run at all.
\<close>

theorem explicit_end:
  assumes "end' c \<noteq> []"
  shows "add_endsAt env c startsAt =
           (case Parse env (end' c) of Inl err \<Rightarrow> Inl (TimeParseError err) | Inr t \<Rightarrow> Inr t)
       \<and> (case Parse env (end' c) of
             Inl err \<Rightarrow> posts (events (add env c w)) = []
           | Inr t \<Rightarrow> list_all (\<lambda>(cfg, p). EndsAt p = t) (posts (events (add env c w))))
       \<and> (case outcome (add env c w) of None \<Rightarrow> True | Some e \<Rightarrow> \<not> isDurationError e)
       \<and> add env (c\<lparr>duration := d, maxDuration := md\<rparr>) w = add env c w"
proof -
  have 1: "add_endsAt env c startsAt =
           (case Parse env (end' c) of Inl err \<Rightarrow> Inl (TimeParseError err) | Inr t \<Rightarrow> Inr t)"
    for startsAt
    using assms by (simp add: add_endsAt_def)
  have 2: "case Parse env (end' c) of
             Inl err \<Rightarrow> posts (events (add env c w)) = []
           | Inr t \<Rightarrow> list_all (\<lambda>(cfg, p). EndsAt p = t) (posts (events (add env c w)))"
  proof (cases "add_silence env c")
    case (Inl e)
    then have "posts (events (add env c w)) = []" by (simp add: add_def)
    then show ?thesis by (simp split: sum.splits)
  next
    case (Inr ps)
    from add_silence_Inr [OF this] have "add_endsAt env c (StartsAt ps) = Inr (EndsAt ps)" by simp
    then have "Parse env (end' c) = Inr (EndsAt ps)"
      by (simp add: 1 split: sum.splits)
    moreover have "list_all (\<lambda>(cfg, p). p = ps) (posts (events (add env c w)))"
      using Inr add_dispatch_posts_payload [of ps env c w] by (simp add: add_def)
    then have "list_all (\<lambda>(cfg, p). EndsAt p = EndsAt ps) (posts (events (add env c w)))"
      by (rule list.pred_mono_strong) auto
    ultimately show ?thesis by simp
  qed
  have 3: "case outcome (add env c w) of None \<Rightarrow> True | Some e \<Rightarrow> \<not> isDurationError e"
  proof (cases "add_silence env c")
    case (Inl e)
    have "\<not> isDurationError e"
    proof (cases "add_matchers env c")
      case (Inl e1)
      with \<open>add_silence env c = Inl e\<close> have "e = e1" by (simp add: add_silence_def)
      with Inl show ?thesis
        by (auto simp: add_matchers_def split: sum.splits if_splits dest: parseLoop_syntax)
    next
      case (Inr ms)
      show ?thesis
      proof (cases "add_startsAt env c")
        case (Inl e2)
        with Inr \<open>add_silence env c = Inl e\<close> have "e = e2" by (simp add: add_silence_def)
        with Inl show ?thesis by (auto simp: add_startsAt_def split: sum.splits if_splits)
      next
        case (Inr s)
        with \<open>add_matchers env c = Inr ms\<close> \<open>add_silence env c = Inl e\<close> show ?thesis
          by (auto simp: add_silence_stages 1 split: sum.splits if_splits)
      qed
    qed
    with Inl show ?thesis by (simp add: add_def)
  next
    case (Inr ps)
    show ?thesis
    proof (cases "outcome (add env c w)")
      case None
      then show ?thesis by simp
    next
      case (Some e)
      with Inr have "outcome (add_dispatch env c ps w) = Some e" by (simp add: add_def)
      from add_dispatch_outcome [OF this] isDurationError_validation have "\<not> isDurationError e" by blast
      with Some show ?thesis by simp
    qed
  qed
  let ?c = "c\<lparr>duration := d, maxDuration := md\<rparr>"
  have "add_endsAt env ?c s = add_endsAt env c s" for s
    using assms by (simp add: add_endsAt_def)
  moreover have "add_matchers env ?c = add_matchers env c"
    by (simp add: add_matchers_def)
  moreover have "add_startsAt env ?c = add_startsAt env c"
    by (simp add: add_startsAt_def)
  moreover have "requireComment ?c = requireComment c" "comment ?c = comment c" "author ?c = author c"
    by simp_all
  ultimately have "add_silence env ?c = add_silence env c"
    unfolding add_silence_def by (simp only:)
  moreover have "add_dispatch env ?c ps w = add_dispatch env c ps w" for ps
    by (rule add_dispatch_cong) simp_all
  ultimately have 4: "add env ?c w = add env c w"
    unfolding add_def by (simp only:)
  from 1 [of startsAt] 2 3 4 show ?thesis by (intro conjI)
qed

theorem explicit_end_witness:
  "posts (events (add exampleEnv
      (exampleCmd\<lparr>end' := ''2024-01-01T06:00:00Z'', duration := ''bogus'', maxDuration := ''0''\<rparr>) 0))
     = [(\<lparr>HTTPHeaders = None\<rparr>,
         \<lparr> Matchers = [\<lparr>Name' = ''alertname'', Value' = ''foo'', IsEqual = True, IsRegex = False\<rparr>,
                       \<lparr>Name' = ''node'', Value' = ''bar'', IsEqual = True, IsRegex = False\<rparr>],
            StartsAt = 1704067200000000000, EndsAt = 1704088800000000000,
            CreatedBy = ''me'', Comment = ''x'' \<rparr>)]
   \<and> Parse exampleEnv ''2024-01-01T06:00:00Z'' = Inr 1704088800000000000
   \<and> add exampleEnv
      (exampleCmd\<lparr>end' := ''2024-01-01T06:00:00Z'', duration := ''bogus'', maxDuration := ''0''\<rparr>) 0
     = add exampleEnv (exampleCmd\<lparr>end' := ''2024-01-01T06:00:00Z''\<rparr>) 0"
proof -
  let ?c = "exampleCmd\<lparr>end' := ''2024-01-01T06:00:00Z''\<rparr>"
  have e: "end' ?c \<noteq> []" by (simp add: exampleCmd_def)
  have run: "add exampleEnv ?c 0
     = (None,
        [Post \<lparr>HTTPHeaders = None\<rparr>
         \<lparr> Matchers = [\<lparr>Name' = ''alertname'', Value' = ''foo'', IsEqual = True, IsRegex = False\<rparr>,
                       \<lparr>Name' = ''node'', Value' = ''bar'', IsEqual = True, IsRegex = False\<rparr>],
            StartsAt = 1704067200000000000, EndsAt = 1704088800000000000,
            CreatedBy = ''me'', Comment = ''x'' \<rparr>,
         Print (SilenceAdded ''silence'')], 1)"
    by (simp add: example_defs add_defs)
  have p: "Parse exampleEnv ''2024-01-01T06:00:00Z'' = Inr 1704088800000000000"
    by (simp add: example_defs)
  note T = explicit_end [OF e, where env = exampleEnv and w = 0 and d = "''bogus''" and md = "''0''",
      THEN conjunct2, THEN conjunct2, THEN conjunct2]
  have a: "posts (events (add exampleEnv (?c\<lparr>duration := ''bogus'', maxDuration := ''0''\<rparr>) 0))
     = [(\<lparr>HTTPHeaders = None\<rparr>,
         \<lparr> Matchers = [\<lparr>Name' = ''alertname'', Value' = ''foo'', IsEqual = True, IsRegex = False\<rparr>,
                       \<lparr>Name' = ''node'', Value' = ''bar'', IsEqual = True, IsRegex = False\<rparr>],
            StartsAt = 1704067200000000000, EndsAt = 1704088800000000000,
            CreatedBy = ''me'', Comment = ''x'' \<rparr>)]"
    unfolding T run by simp
  from a p T show ?thesis by (intro conjI)
qed

section \<open>The duration path\<close>

text \<open>
  Claim C7. Without an explicit end, a duration that does not parse or is zero makes
  the resolution of the end fail with \<open>InvalidDurationError\<close> (the error of the parser,
  or "silence duration must be greater than 0"), whatever the start is: nothing is sent,
  and \<open>add\<close> ends with that error whenever it gets as far as the window (the matchers
  parsed, the start resolved). Otherwise the end is the start plus the parsed duration,
  unless the limit refuses it, and every payload sent ends exactly the duration after
  it starts.
\<close>

theorem duration_path:
  assumes "end' c = []"
    and "ParseDuration env (duration c) = (d, err)"
  shows "if err \<noteq> None \<or> d = 0 then
           add_endsAt env c startsAt
             = Inl (InvalidDurationError
                      (case err of Some msg \<Rightarrow> msg | None \<Rightarrow> ''silence duration must be greater than 0''))
           \<and> posts (events (add env c w)) = []
           \<and> (add_matchers env c = Inr ms \<longrightarrow> add_startsAt env c = Inr startsAt \<longrightarrow>
              add env c w
                = (Some (InvalidDurationError
                           (case err of Some msg \<Rightarrow> msg | None \<Rightarrow> ''silence duration must be greater than 0'')),
                   [], w))
         else
           add_endsAt env c startsAt
             = (if fst (ParseDuration env (maxDuration c)) < d
                then Inl (DurationExceedsMaxError (duration c) (maxDuration c))
                else Inr (startsAt + d))
           \<and> list_all (\<lambda>(cfg, p). EndsAt p = StartsAt p + d \<and> EndsAt p - StartsAt p = d)
                (posts (events (add env c w)))"
proof (cases "err \<noteq> None \<or> d = 0")
  case True
  let ?e = "InvalidDurationError
              (case err of Some msg \<Rightarrow> msg | None \<Rightarrow> ''silence duration must be greater than 0'')"
  from True assms have e: "add_endsAt env c s = Inl ?e" for s
    by (auto simp: add_endsAt_def split: option.splits)
  have "posts (events (add env c w)) = []"
  proof (cases "add_silence env c")
    case (Inl e')
    then show ?thesis by (simp add: add_def)
  next
    case (Inr ps)
    from add_silence_Inr [OF this] e [of "StartsAt ps"] show ?thesis by simp
  qed
  moreover have "add env c w = (Some ?e, [], w)"
    if "add_matchers env c = Inr ms" "add_startsAt env c = Inr startsAt"
  proof -
    from that e [of startsAt] have "add_silence env c = Inl ?e" by (simp add: add_silence_stages)
    then show ?thesis by (rule add_fail)
  qed
  ultimately show ?thesis using True e [of startsAt] by simp
next
  case False
  with assms have e: "add_endsAt env c s
             = (if fst (ParseDuration env (maxDuration c)) < d
                then Inl (DurationExceedsMaxError (duration c) (maxDuration c))
                else Inr (s + d))" for s
    by (simp add: add_endsAt_def)
  have "list_all (\<lambda>(cfg, p). EndsAt p = StartsAt p + d \<and> EndsAt p - StartsAt p = d)
                (posts (events (add env c w)))"
  proof (cases "add_silence env c")
    case (Inl e')
    then show ?thesis by (simp add: add_def)
  next
    case (Inr ps)
    from add_silence_Inr [OF this] e [of "StartsAt ps"]
    have "EndsAt ps = StartsAt ps + d"
      by (auto split: if_splits)
    moreover have "list_all (\<lambda>(cfg, p). p = ps) (posts (events (add env c w)))"
      using Inr add_dispatch_posts_payload [of ps env c w] by (simp add: add_def)
    ultimately show ?thesis
      by (auto elim!: list.pred_mono_strong)
  qed
  with False e [of startsAt] show ?thesis by simp
qed

theorem duration_path_witness:
  "add exampleEnv (exampleCmd\<lparr>duration := ''soon''\<rparr>) 0
     = (Some (InvalidDurationError ''not a valid duration string: soon''), [], 0)
   \<and> add exampleEnv (exampleCmd\<lparr>duration := ''0''\<rparr>) 0
     = (Some (InvalidDurationError ''silence duration must be greater than 0''), [], 0)
   \<and> list_all (\<lambda>(cfg, p). EndsAt p - StartsAt p = 600000000000)
        (posts (events (add exampleEnv (exampleCmd\<lparr>duration := ''10m''\<rparr>) 0)))
   \<and> length (posts (events (add exampleEnv (exampleCmd\<lparr>duration := ''10m''\<rparr>) 0))) = 1"
proof -
  let ?ms = "[\<lparr>Type = MatchEqual, Name = ''alertname'', Value = ''foo''\<rparr>,
              \<lparr>Type = MatchEqual, Name = ''node'', Value = ''bar''\<rparr>]"
  have e: "\<And>d. end' (exampleCmd\<lparr>duration := d\<rparr>) = []" by (simp add: exampleCmd_def)
  have m: "\<And>d. add_matchers exampleEnv (exampleCmd\<lparr>duration := d\<rparr>) = Inr ?ms"
    by (simp add: example_defs add_defs)
  have s: "\<And>d. add_startsAt exampleEnv (exampleCmd\<lparr>duration := d\<rparr>) = Inr 1704067200000000000"
    by (simp add: example_defs add_defs)
  have p1: "ParseDuration exampleEnv (duration (exampleCmd\<lparr>duration := ''soon''\<rparr>))
              = (0, Some ''not a valid duration string: soon'')"
    and p2: "ParseDuration exampleEnv (duration (exampleCmd\<lparr>duration := ''0''\<rparr>)) = (0, None)"
    and p3: "ParseDuration exampleEnv (duration (exampleCmd\<lparr>duration := ''10m''\<rparr>)) = (600000000000, None)"
    by (simp_all add: example_defs)
  have 1: "add exampleEnv (exampleCmd\<lparr>duration := ''soon''\<rparr>) 0
     = (Some (InvalidDurationError ''not a valid duration string: soon''), [], 0)"
    using duration_path [OF e p1, of 1704067200000000000 0 ?ms] m s by simp
  have 2: "add exampleEnv (exampleCmd\<lparr>duration := ''0''\<rparr>) 0
     = (Some (InvalidDurationError ''silence duration must be greater than 0''), [], 0)"
    using duration_path [OF e p2, of 1704067200000000000 0 ?ms] m s by simp
  have 3: "list_all (\<lambda>(cfg, p). EndsAt p - StartsAt p = 600000000000)
        (posts (events (add exampleEnv (exampleCmd\<lparr>duration := ''10m''\<rparr>) 0)))"
    using duration_path [OF e p3, of 1704067200000000000 0 ?ms] by (auto elim!: list.pred_mono_strong)
  have 4: "length (posts (events (add exampleEnv (exampleCmd\<lparr>duration := ''10m''\<rparr>) 0))) = 1"
    by (simp add: example_defs add_defs)
  from 1 2 3 4 show ?thesis by (intro conjI)
qed

section \<open>The order of the window\<close>

text \<open>
  Claim C8. Every payload that is sent starts no later than it ends, and carries the
  start and the end exactly as they were resolved; and a resolved window that starts
  strictly after it ends makes \<open>add\<close> fail with \<open>InvalidWindowError\<close>, before anything is
  sent, whatever the duration is.
\<close>

theorem window_in_order:
  "list_all (\<lambda>(cfg, p). StartsAt p \<le> EndsAt p
                \<and> add_startsAt env c = Inr (StartsAt p)
                \<and> add_endsAt env c (StartsAt p) = Inr (EndsAt p))
     (posts (events (add env c w)))
   \<and> (add_matchers env c = Inr ms \<longrightarrow> add_startsAt env c = Inr startsAt \<longrightarrow>
      add_endsAt env c startsAt = Inr endsAt \<longrightarrow> endsAt < startsAt \<longrightarrow>
      add env c w = (Some InvalidWindowError, [], w))"
proof -
  have 1: "list_all (\<lambda>(cfg, p). StartsAt p \<le> EndsAt p
                \<and> add_startsAt env c = Inr (StartsAt p)
                \<and> add_endsAt env c (StartsAt p) = Inr (EndsAt p))
     (posts (events (add env c w)))"
  proof (cases "add_silence env c")
    case (Inl e)
    then show ?thesis by (simp add: add_def)
  next
    case (Inr ps)
    note ok = add_silence_Inr [OF this]
    have "list_all (\<lambda>(cfg, p). p = ps) (posts (events (add env c w)))"
      using Inr add_dispatch_posts_payload [of ps env c w] by (simp add: add_def)
    with ok show ?thesis
      by (auto elim!: list.pred_mono_strong)
  qed
  have 2: "add env c w = (Some InvalidWindowError, [], w)"
    if "add_matchers env c = Inr ms" "add_startsAt env c = Inr startsAt"
      "add_endsAt env c startsAt = Inr endsAt" "endsAt < startsAt"
  proof -
    from that have "add_silence env c = Inl InvalidWindowError" by (simp add: add_silence_stages)
    then show ?thesis by (rule add_fail)
  qed
  from 1 2 show ?thesis by blast
qed

theorem window_in_order_witness:
  "add exampleEnv (exampleCmd\<lparr>start := ''2024-01-02T00:00:00Z'', end' := ''2024-01-01T06:00:00Z''\<rparr>) 0
     = (Some InvalidWindowError, [], 0)
   \<and> add exampleEnv
       (exampleCmd\<lparr>start := ''2024-01-02T00:00:00Z'', end' := ''2024-01-01T06:00:00Z'', duration := ''10m''\<rparr>) 0
     = (Some InvalidWindowError, [], 0)"
proof -
  let ?ms = "[\<lparr>Type = MatchEqual, Name = ''alertname'', Value = ''foo''\<rparr>,
              \<lparr>Type = MatchEqual, Name = ''node'', Value = ''bar''\<rparr>]"
  let ?c = "exampleCmd\<lparr>start := ''2024-01-02T00:00:00Z'', end' := ''2024-01-01T06:00:00Z''\<rparr>"
  let ?c' = "exampleCmd\<lparr>start := ''2024-01-02T00:00:00Z'', end' := ''2024-01-01T06:00:00Z'', duration := ''10m''\<rparr>"
  have m: "add_matchers exampleEnv ?c = Inr ?ms" "add_matchers exampleEnv ?c' = Inr ?ms"
    by (simp_all add: example_defs add_defs)
  have s: "add_startsAt exampleEnv ?c = Inr 1704153600000000000"
    "add_startsAt exampleEnv ?c' = Inr 1704153600000000000"
    by (simp_all add: example_defs add_defs)
  have e: "add_endsAt exampleEnv ?c 1704153600000000000 = Inr 1704088800000000000"
    "add_endsAt exampleEnv ?c' 1704153600000000000 = Inr 1704088800000000000"
    by (simp_all add: example_defs add_defs)
  have 1: "add exampleEnv ?c 0 = (Some InvalidWindowError, [], 0)"
    using window_in_order [of exampleEnv ?c 0 ?ms 1704153600000000000 1704088800000000000] m(1) s(1) e(1)
    by simp
  have 2: "add exampleEnv ?c' 0 = (Some InvalidWindowError, [], 0)"
    using window_in_order [of exampleEnv ?c' 0 ?ms 1704153600000000000 1704088800000000000] m(2) s(2) e(2)
    by simp
  from 1 2 show ?thesis by (intro conjI)
qed

section \<open>An empty tenant flag\<close>

text \<open>
  Claim C9. The tenant flag is a string flag without default: given as the empty string
  or not given at all, the field \<open>tenant\<close> is the empty string, and \<open>add\<close> does the same
  in both cases. With that and without a tenant file (the payload built, the HTTP client
  built), \<open>add\<close> makes exactly one request, with the configuration as
  \<open>NewAlertmanagerClientConfig\<close> returned it: \<open>setHTTPTenantHeader\<close> is not applied, no
  header with an empty tenant is attached.
\<close>

theorem empty_tenant_flag:
  assumes "given = None \<or> given = Some []"
    and "tenant c = StringVar [] given"
    and "tenantFile c = []"
    and "add_silence env c = Inr ps"
    and "NewAlertmanagerClientConfig env = Inr httpConfig"
    and "NewAlertmanagerClient env httpConfig = Inr amclient"
  shows "add env c w =
           (case PostSilences env httpConfig ps w of
              (Inl err, w') \<Rightarrow> (Some (SubmissionError None err), [Post httpConfig ps], w')
            | (Inr silenceID, w') \<Rightarrow> (None, [Post httpConfig ps, Print (SilenceAdded silenceID)], w'))
       \<and> posts (events (add env c w)) = [(httpConfig, ps)]
       \<and> add env (c\<lparr>tenant := StringVar [] (Some [])\<rparr>) w = add env (c\<lparr>tenant := StringVar [] None\<rparr>) w"
proof -
  from assms(1,2) have t: "tenant c = []" by (auto simp: StringVar_def)
  from assms(6) have cl: "NewAlertmanagerClient env httpConfig = Inr httpConfig"
    using NewAlertmanagerClient_Inr by blast
  have run: "add env c w =
           (case PostSilences env httpConfig ps w of
              (Inl err, w') \<Rightarrow> (Some (SubmissionError None err), [Post httpConfig ps], w')
            | (Inr silenceID, w') \<Rightarrow> (None, [Post httpConfig ps, Print (SilenceAdded silenceID)], w'))"
    using t assms(3,4,5) cl by (simp add: add_def add_dispatch_def)
  have p: "posts (events (add env c w)) = [(httpConfig, ps)]"
    unfolding run by (simp split: prod.splits sum.splits)
  have "StringVar [] (Some []) = StringVar [] None" by (simp add: StringVar_def)
  then have same: "add env (c\<lparr>tenant := StringVar [] (Some [])\<rparr>) w = add env (c\<lparr>tenant := StringVar [] None\<rparr>) w"
    by (simp only:)
  from run p same show ?thesis by (intro conjI)
qed

theorem empty_tenant_flag_witness:
  "add exampleEnv (exampleCmd\<lparr>tenant := StringVar [] (Some [])\<rparr>) 0
     = (None,
        [Post \<lparr>HTTPHeaders = None\<rparr>
           \<lparr> Matchers = [\<lparr>Name' = ''alertname'', Value' = ''foo'', IsEqual = True, IsRegex = False\<rparr>,
                         \<lparr>Name' = ''node'', Value' = ''bar'', IsEqual = True, IsRegex = False\<rparr>],
              StartsAt = 1704067200000000000, EndsAt = 1704070800000000000,
              CreatedBy = ''me'', Comment = ''x'' \<rparr>,
         Print (SilenceAdded ''silence'')], 1)
   \<and> tenantOf ''X-Scope-OrgID'' \<lparr>HTTPHeaders = None\<rparr> = None
   \<and> tenantOf ''X-Scope-OrgID'' (setHTTPTenantHeader \<lparr>HTTPHeaders = None\<rparr> [] ''X-Scope-OrgID'') = Some [[]]"
proof -
  let ?c = "exampleCmd\<lparr>tenant := StringVar [] (Some [])\<rparr>"
  let ?ps = "\<lparr> Matchers = [\<lparr>Name' = ''alertname'', Value' = ''foo'', IsEqual = True, IsRegex = False\<rparr>,
                           \<lparr>Name' = ''node'', Value' = ''bar'', IsEqual = True, IsRegex = False\<rparr>],
                StartsAt = 1704067200000000000, EndsAt = 1704070800000000000,
                CreatedBy = ''me'', Comment = ''x'' \<rparr>"
  have 1: "Some [] = None \<or> Some [] = Some ([] :: string)" by simp
  have 2: "tenant ?c = StringVar [] (Some [])" by simp
  have 3: "tenantFile ?c = []" by (simp add: exampleCmd_def)
  have 4: "add_silence exampleEnv ?c = Inr ?ps" by (simp add: example_defs add_defs)
  have 5: "NewAlertmanagerClientConfig exampleEnv = Inr \<lparr>HTTPHeaders = None\<rparr>"
    by (simp add: exampleEnv_def NewAlertmanagerClientConfig_def)
  have 6: "NewAlertmanagerClient exampleEnv \<lparr>HTTPHeaders = None\<rparr> = Inr \<lparr>HTTPHeaders = None\<rparr>"
    by (simp add: exampleEnv_def NewAlertmanagerClient_def)
  have r: "PostSilences exampleEnv \<lparr>HTTPHeaders = None\<rparr> ?ps 0 = (Inr ''silence'', 1)"
    by (simp add: exampleEnv_def examplePost_def)
  note T = empty_tenant_flag [OF 1 2 3 4 5 6, of 0, THEN conjunct1, unfolded r]
  have a: "add exampleEnv ?c 0 = (None, [Post \<lparr>HTTPHeaders = None\<rparr> ?ps, Print (SilenceAdded ''silence'')], 1)"
    using T by simp
  have b: "tenantOf ''X-Scope-OrgID'' \<lparr>HTTPHeaders = None\<rparr> = None"
    by (simp add: tenantOf_def)
  have c: "tenantOf ''X-Scope-OrgID'' (setHTTPTenantHeader \<lparr>HTTPHeaders = None\<rparr> [] ''X-Scope-OrgID'') = Some [[]]"
    by (simp add: tenantOf_setHTTPTenantHeader)
  from a b c show ?thesis by (intro conjI)
qed

end
